theory Spec2Isabelle
  imports Main
begin

section \<open>Python values, exceptions and text\<close>

text \<open>
  The three scripts of the repository share one design: a connection class with the
  methods \<open>connect\<close>, \<open>send_command\<close>, \<open>query\<close> and \<open>disconnect\<close>, the first three of
  which wrap their body in \<^verbatim>\<open>try: ... except Exception as e: print(...)\<close>.
  \<^verbatim>\<open>SocketConnection\<close> (identical in \<^verbatim>\<open>python_scpi_command_example.py\<close> and
  \<^verbatim>\<open>python_basic_configuration_example.py\<close>) talks to a TCP socket;
  \<^verbatim>\<open>VISAConnection\<close> (\<^verbatim>\<open>python_scpi_command_by_visa_example.py\<close>) talks to a
  pyvisa instrument. The methods of \<^verbatim>\<open>SocketConnection\<close> keep their names here; those of
  \<^verbatim>\<open>VISAConnection\<close> carry the prefix \<open>visa_\<close>.

  A Python \<open>str\<close> is a sequence of Unicode code points and a \<open>bytes\<close> object a sequence
  of integers in \<open>range(256)\<close>; both are lists of naturals here.
\<close>

type_synonym str = "nat list"
type_synonym bytes = "nat list"

text \<open>
  The exceptions the modelled code can meet. All but \<open>KeyboardInterrupt\<close> derive from
  \<open>Exception\<close>; \<open>KeyboardInterrupt\<close> derives from \<open>BaseException\<close> only, so
  \<^verbatim>\<open>except Exception\<close> does not catch it.
\<close>

datatype py_exc =
    AttributeError
  | ValueError
  | UnicodeEncodeError
  | UnicodeDecodeError
  | OSError
  | TimeoutError
  | VisaIOError
  | InvalidSession
  | KeyboardInterrupt

fun is_Exception :: "py_exc \<Rightarrow> bool" where
  "is_Exception KeyboardInterrupt = False"
| "is_Exception _ = True"

datatype pyval = PyNone | PyBool bool | PyStr str

text \<open>How a method call ends: it returns a value, or an exception leaves it.\<close>

datatype outcome = Returned pyval | Propagated py_exc

subsection \<open>\<open>str.encode()\<close> and \<open>bytes.decode()\<close>: strict UTF-8\<close>

definition encodable :: "nat \<Rightarrow> bool" where
  "encodable c = (c < 0x110000 \<and> \<not> (0xD800 \<le> c \<and> c \<le> 0xDFFF))"

definition utf8_cp :: "nat \<Rightarrow> bytes" where
  "utf8_cp c =
     (if c < 0x80 then [c]
      else if c < 0x800 then [0xC0 + c div 0x40, 0x80 + c mod 0x40]
      else if c < 0x10000 then
        [0xE0 + c div 0x1000, 0x80 + (c div 0x40) mod 0x40, 0x80 + c mod 0x40]
      else
        [0xF0 + c div 0x40000, 0x80 + (c div 0x1000) mod 0x40,
         0x80 + (c div 0x40) mod 0x40, 0x80 + c mod 0x40])"

text \<open>\<open>s.encode()\<close>: raises \<open>UnicodeEncodeError\<close> on a lone surrogate.\<close>

definition encode :: "str \<Rightarrow> py_exc + bytes" where
  "encode s =
     (if list_all encodable s then Inr (concat (map utf8_cp s))
      else Inl UnicodeEncodeError)"

definition cont :: "nat \<Rightarrow> bool" where
  "cont b = (0x80 \<le> b \<and> b \<le> 0xBF)"

text \<open>
  One code point off the front of a byte sequence, with the bytes left over; \<open>None\<close> on an
  invalid start byte, a missing or invalid continuation byte, an overlong form, a
  surrogate, or a value beyond U+10FFFF.
\<close>

definition utf8_next :: "bytes \<Rightarrow> (nat \<times> bytes) option" where
  "utf8_next bs =
     (case bs of
        [] \<Rightarrow> None
      | b # r0 \<Rightarrow>
          if b < 0x80 then Some (b, r0)
          else if 0xC2 \<le> b \<and> b \<le> 0xDF then
            (case r0 of
               b1 # r \<Rightarrow>
                 if cont b1 then Some ((b - 0xC0) * 0x40 + (b1 - 0x80), r) else None
             | _ \<Rightarrow> None)
          else if 0xE0 \<le> b \<and> b \<le> 0xEF then
            (case r0 of
               b1 # b2 # r \<Rightarrow>
                 (let c = (b - 0xE0) * 0x1000 + (b1 - 0x80) * 0x40 + (b2 - 0x80) in
                  if cont b1 \<and> cont b2 \<and> 0x800 \<le> c \<and> \<not> (0xD800 \<le> c \<and> c \<le> 0xDFFF)
                  then Some (c, r) else None)
             | _ \<Rightarrow> None)
          else if 0xF0 \<le> b \<and> b \<le> 0xF4 then
            (case r0 of
               b1 # b2 # b3 # r \<Rightarrow>
                 (let c = (b - 0xF0) * 0x40000 + (b1 - 0x80) * 0x1000
                          + (b2 - 0x80) * 0x40 + (b3 - 0x80) in
                  if cont b1 \<and> cont b2 \<and> cont b3 \<and> 0x10000 \<le> c \<and> c < 0x110000
                  then Some (c, r) else None)
             | _ \<Rightarrow> None)
          else None)"

function utf8_decode :: "bytes \<Rightarrow> py_exc + str" where
  "utf8_decode [] = Inr []"
| "utf8_decode (b # bs) =
     (case utf8_next (b # bs) of
        None \<Rightarrow> Inl UnicodeDecodeError
      | Some (c, rest) \<Rightarrow>
          (case utf8_decode rest of
             Inl e \<Rightarrow> Inl e
           | Inr s \<Rightarrow> Inr (c # s)))"
  by pat_completeness auto
termination
proof (relation "measure length")
  show "wf (measure length)"
    by simp
next
  fix b bs x c rest
  assume "utf8_next (b # bs) = Some x" "(c, rest) = x"
  then have "utf8_next (b # bs) = Some (c, rest)"
    by simp
  then have "length rest < length (b # bs)"
    unfolding utf8_next_def Let_def
    by (fastforce split: list.splits if_splits)
  then show "(rest, b # bs) \<in> measure length"
    by simp
qed

text \<open>\<open>data.decode()\<close>: raises \<open>UnicodeDecodeError\<close> on bytes that are not UTF-8.\<close>

definition decode :: "bytes \<Rightarrow> py_exc + str" where
  "decode data = utf8_decode data"

subsection \<open>\<open>str.endswith\<close> and \<open>str.strip\<close>\<close>

definition endswith :: "str \<Rightarrow> str \<Rightarrow> bool" where
  "endswith s suffix =
     (length suffix \<le> length s \<and> drop (length s - length suffix) s = suffix)"

text \<open>The code points for which \<open>str.isspace\<close> holds: what \<open>strip()\<close> removes.\<close>

definition isspace :: "nat \<Rightarrow> bool" where
  "isspace c =
     ((0x09 \<le> c \<and> c \<le> 0x0D) \<or> (0x1C \<le> c \<and> c \<le> 0x20) \<or> c = 0x85 \<or> c = 0xA0
      \<or> c = 0x1680 \<or> (0x2000 \<le> c \<and> c \<le> 0x200A) \<or> c = 0x2028 \<or> c = 0x2029
      \<or> c = 0x202F \<or> c = 0x205F \<or> c = 0x3000)"

definition strip :: "str \<Rightarrow> str" where
  "strip s = rev (dropWhile isspace (rev (dropWhile isspace s)))"

text \<open>A text with no whitespace at either end.\<close>

definition stripped :: "str \<Rightarrow> bool" where
  "stripped s = (s = [] \<or> (\<not> isspace (hd s) \<and> \<not> isspace (last s)))"

section \<open>\<open>try\<close> and \<open>except Exception\<close>\<close>

text \<open>Sequencing inside a \<open>try\<close> body: the first exception ends the body.\<close>

definition andthen ::
  "('w \<Rightarrow> (py_exc + 'a) \<times> 'w) \<Rightarrow> ('a \<Rightarrow> 'w \<Rightarrow> (py_exc + 'b) \<times> 'w)
     \<Rightarrow> 'w \<Rightarrow> (py_exc + 'b) \<times> 'w" where
  "andthen m f w = (case m w of (Inl e, w1) \<Rightarrow> (Inl e, w1) | (Inr x, w1) \<Rightarrow> f x w1)"

text \<open>A step that touches nothing: it raises, or has a value.\<close>

definition raise_or :: "py_exc + 'a \<Rightarrow> 'w \<Rightarrow> (py_exc + 'a) \<times> 'w" where
  "raise_or r w = (r, w)"

text \<open>
  \<^verbatim>\<open>try: body  except Exception as e: handler\<close>: the handler runs for exceptions that
  derive from \<open>Exception\<close>; any other leaves the method.
\<close>

definition except_Exception ::
  "('w \<Rightarrow> (py_exc + pyval) \<times> 'w) \<Rightarrow> (py_exc \<Rightarrow> 'w \<Rightarrow> pyval \<times> 'w)
     \<Rightarrow> 'w \<Rightarrow> outcome \<times> 'w" where
  "except_Exception body handler w =
     (case body w of
        (Inr v, w1) \<Rightarrow> (Returned v, w1)
      | (Inl e, w1) \<Rightarrow>
          if is_Exception e then (case handler e w1 of (v, w2) \<Rightarrow> (Returned v, w2))
          else (Propagated e, w1))"

text \<open>
  What the outside decides, call by call: \<open>Some e\<close> makes the call raise \<open>e\<close>, \<open>None\<close>
  lets it succeed, and a call with nothing left in its list succeeds.
\<close>

definition next_outcome :: "py_exc option list \<Rightarrow> py_exc option \<times> py_exc option list" where
  "next_outcome script = (case script of [] \<Rightarrow> (None, []) | x # rest \<Rightarrow> (x, rest))"

text \<open>What \<open>print\<close> writes, one constructor per message of the two classes.\<close>

datatype out =
    Print_Connected str int
  | Print_Connected_resource str
  | Print_Connection_error py_exc
  | Print_Sent str
  | Print_Error_sending py_exc
  | Print_Query str
  | Print_Response str
  | Print_Query_error py_exc
  | Print_Disconnected str

section \<open>The socket, as the class uses it\<close>

text \<open>
  A socket object: the timeout set on it, whether \<open>connect\<close> has succeeded, whether
  \<open>close\<close> has been called.
\<close>

record sock =
  sock_timeout :: "int option"
  sock_connected :: bool
  sock_closed :: bool

definition fresh_sock :: sock where
  "fresh_sock = \<lparr>sock_timeout = None, sock_connected = False, sock_closed = False\<rparr>"

text \<open>The calls made on socket objects, in the order they are made.\<close>

datatype call =
    Settimeout int
  | Connect str int
  | Sendall bytes
  | Recv nat
  | Close

datatype recv_outcome = RecvData bytes | RecvRaises py_exc

record SocketConnection =
  ip :: str
  port :: int
  timeout :: int
  socket :: "sock option"

text \<open>
  The object together with its surroundings: the calls observed on sockets, the console,
  and what the network will do, one list element per call. A \<open>recv\<close> with nothing left
  to receive runs into the socket's timeout.
\<close>

record world =
  self :: SocketConnection
  calls :: "call list"
  console :: "out list"
  create_outcomes :: "py_exc option list"
  connect_outcomes :: "py_exc option list"
  sendall_outcomes :: "py_exc option list"
  recv_outcomes :: "recv_outcome list"

definition print :: "out \<Rightarrow> world \<Rightarrow> world" where
  "print line w = w\<lparr>console := console w @ [line]\<rparr>"

definition record_call :: "call \<Rightarrow> world \<Rightarrow> world" where
  "record_call c w = w\<lparr>calls := calls w @ [c]\<rparr>"

definition set_socket :: "sock option \<Rightarrow> world \<Rightarrow> world" where
  "set_socket s w = w\<lparr>self := (self w)\<lparr>socket := s\<rparr>\<rparr>"

text \<open>\<open>socket.socket(socket.AF_INET, socket.SOCK_STREAM)\<close>\<close>

definition socket_socket :: "world \<Rightarrow> (py_exc + sock) \<times> world" where
  "socket_socket w =
     (let (r, rest) = next_outcome (create_outcomes w);
          w1 = w\<lparr>create_outcomes := rest\<rparr>
      in case r of Some e \<Rightarrow> (Inl e, w1) | None \<Rightarrow> (Inr fresh_sock, w1))"

text \<open>
  \<open>self.socket.<method>\<close>: the attribute lookup on \<open>None\<close> raises \<open>AttributeError\<close>
  before any argument of the call is evaluated.
\<close>

definition get_socket :: "world \<Rightarrow> (py_exc + sock) \<times> world" where
  "get_socket w =
     (case socket (self w) of None \<Rightarrow> (Inl AttributeError, w) | Some s \<Rightarrow> (Inr s, w))"

text \<open>\<open>s.settimeout(t)\<close>: a negative timeout is a \<open>ValueError\<close>.\<close>

definition settimeout :: "int \<Rightarrow> sock \<Rightarrow> world \<Rightarrow> (py_exc + unit) \<times> world" where
  "settimeout t s w =
     (let w1 = record_call (Settimeout t) w in
      if t < 0 then (Inl ValueError, w1)
      else (Inr (), set_socket (Some (s\<lparr>sock_timeout := Some t\<rparr>)) w1))"

text \<open>\<open>s.connect((host, p))\<close>\<close>

definition sock_connect :: "str \<Rightarrow> int \<Rightarrow> sock \<Rightarrow> world \<Rightarrow> (py_exc + unit) \<times> world" where
  "sock_connect host p s w =
     (let (r, rest) = next_outcome (connect_outcomes w);
          w1 = (record_call (Connect host p) w)\<lparr>connect_outcomes := rest\<rparr>
      in case r of
           Some e \<Rightarrow> (Inl e, w1)
         | None \<Rightarrow> (Inr (), set_socket (Some (s\<lparr>sock_connected := True\<rparr>)) w1))"

text \<open>
  \<open>s.sendall(data)\<close>: on a socket that is closed or was never connected the call raises
  \<open>OSError\<close> at once; otherwise the network decides.
\<close>

definition sendall :: "bytes \<Rightarrow> sock \<Rightarrow> world \<Rightarrow> (py_exc + unit) \<times> world" where
  "sendall data s w =
     (let w1 = record_call (Sendall data) w in
      if sock_closed s \<or> \<not> sock_connected s then (Inl OSError, w1)
      else
        (let (r, rest) = next_outcome (sendall_outcomes w1);
             w2 = w1\<lparr>sendall_outcomes := rest\<rparr>
         in case r of Some e \<Rightarrow> (Inl e, w2) | None \<Rightarrow> (Inr (), w2)))"

text \<open>
  \<open>s.recv(bufsize)\<close>: at most \<open>bufsize\<close> of the bytes that have arrived; what does not
  fit stays in the socket for a later \<open>recv\<close>.
\<close>

definition recv :: "nat \<Rightarrow> sock \<Rightarrow> world \<Rightarrow> (py_exc + bytes) \<times> world" where
  "recv bufsize s w =
     (let w1 = record_call (Recv bufsize) w in
      if sock_closed s \<or> \<not> sock_connected s then (Inl OSError, w1)
      else
        (case recv_outcomes w1 of
           [] \<Rightarrow> (Inl TimeoutError, w1)
         | RecvRaises e # rest \<Rightarrow> (Inl e, w1\<lparr>recv_outcomes := rest\<rparr>)
         | RecvData arrived # rest \<Rightarrow>
             (Inr (take bufsize arrived),
              w1\<lparr>recv_outcomes :=
                    (if bufsize < length arrived then RecvData (drop bufsize arrived) # rest
                     else rest)\<rparr>)))"

text \<open>\<open>s.close()\<close>: the transport's close never fails and may be repeated.\<close>

definition close :: "sock \<Rightarrow> world \<Rightarrow> world" where
  "close s w = set_socket (Some (s\<lparr>sock_closed := True\<rparr>)) (record_call Close w)"

section \<open>The class \<open>SocketConnection\<close>\<close>

definition DEFAULT_PORT :: int where
  "DEFAULT_PORT = 5025"

definition CONNECTION_TIMEOUT :: int where
  "CONNECTION_TIMEOUT = 5"

text \<open>\<open>__init__\<close>\<close>

definition init :: "str \<Rightarrow> int \<Rightarrow> int \<Rightarrow> SocketConnection" where
  "init ip_arg port_arg timeout_arg =
     \<lparr>ip = ip_arg, port = port_arg, timeout = timeout_arg, socket = None\<rparr>"

definition print_line :: "out \<Rightarrow> world \<Rightarrow> (py_exc + unit) \<times> world" where
  "print_line line w = (Inr (), print line w)"

text \<open>
  \<^verbatim>\<open>
  def connect(self):
      try:
          self.socket = socket.socket(socket.AF_INET, socket.SOCK_STREAM)
          self.socket.settimeout(self.timeout)
          self.socket.connect((self.ip, self.port))
          print(f"Connected to {self.ip}:{self.port}")
          return True
      except Exception as e:
          print(f"Connection error: {e}")
          return False
  \<close>
\<close>

definition connect_body :: "world \<Rightarrow> (py_exc + pyval) \<times> world" where
  "connect_body =
     andthen socket_socket (\<lambda>s.
     andthen (\<lambda>w. (Inr (), set_socket (Some s) w)) (\<lambda>_.
     andthen get_socket (\<lambda>s1.
     andthen (\<lambda>w. settimeout (timeout (self w)) s1 w) (\<lambda>_.
     andthen get_socket (\<lambda>s2.
     andthen (\<lambda>w. sock_connect (ip (self w)) (port (self w)) s2 w) (\<lambda>_.
     andthen (\<lambda>w. print_line (Print_Connected (ip (self w)) (port (self w))) w) (\<lambda>_.
     raise_or (Inr (PyBool True)))))))))"

definition connect :: "world \<Rightarrow> outcome \<times> world" where
  "connect =
     except_Exception connect_body
       (\<lambda>e w. (PyBool False, print (Print_Connection_error e) w))"

text \<open>
  \<^verbatim>\<open>
  def send_command(self, command):
      try:
          if not command.endswith('\n'):
              command += '\n'
          self.socket.sendall(command.encode())
          print(f"Sent: {command.strip()}")
      except Exception as e:
          print(f"Error sending command: {e}")
  \<close>
\<close>

text \<open>The first two lines of the body, shared with \<open>query\<close>.\<close>

definition terminated :: "str \<Rightarrow> str" where
  "terminated command = (if \<not> endswith command [0x0A] then command @ [0x0A] else command)"

definition send_command_body :: "str \<Rightarrow> world \<Rightarrow> (py_exc + pyval) \<times> world" where
  "send_command_body command0 =
     (let command = terminated command0 in
      andthen get_socket (\<lambda>s.
      andthen (raise_or (encode command)) (\<lambda>data.
      andthen (sendall data s) (\<lambda>_.
      andthen (print_line (Print_Sent (strip command))) (\<lambda>_.
      raise_or (Inr PyNone))))))"

definition send_command :: "str \<Rightarrow> world \<Rightarrow> outcome \<times> world" where
  "send_command command =
     except_Exception (send_command_body command)
       (\<lambda>e w. (PyNone, print (Print_Error_sending e) w))"

text \<open>
  \<^verbatim>\<open>
  def query(self, command):
      try:
          if not command.endswith('\n'):
              command += '\n'
          self.socket.sendall(command.encode())
          print(f"Query: {command.strip()}")
          response = self.socket.recv(65535).decode().strip()
          print(f"Response: {response}")
          return response
      except Exception as e:
          print(f"Query error: {e}")
          return None
  \<close>
\<close>

definition query_body :: "str \<Rightarrow> world \<Rightarrow> (py_exc + pyval) \<times> world" where
  "query_body command0 =
     (let command = terminated command0 in
      andthen get_socket (\<lambda>s.
      andthen (raise_or (encode command)) (\<lambda>data.
      andthen (sendall data s) (\<lambda>_.
      andthen (print_line (Print_Query (strip command))) (\<lambda>_.
      andthen get_socket (\<lambda>s1.
      andthen (recv 65535 s1) (\<lambda>received.
      andthen (raise_or (decode received)) (\<lambda>text.
      andthen (print_line (Print_Response (strip text))) (\<lambda>_.
      raise_or (Inr (PyStr (strip text))))))))))))"

definition query :: "str \<Rightarrow> world \<Rightarrow> outcome \<times> world" where
  "query command =
     except_Exception (query_body command)
       (\<lambda>e w. (PyNone, print (Print_Query_error e) w))"

text \<open>
  \<^verbatim>\<open>
  def disconnect(self):
      if self.socket:
          self.socket.close()
          print(f"Disconnected from {self.ip}")
  \<close>
  A socket object is always true; only \<open>None\<close> is false.
\<close>

definition disconnect :: "world \<Rightarrow> outcome \<times> world" where
  "disconnect w =
     (case socket (self w) of
        None \<Rightarrow> (Returned PyNone, w)
      | Some s \<Rightarrow> (Returned PyNone, print (Print_Disconnected (ip (self w))) (close s w)))"

section \<open>The pyvisa objects, as the class uses them\<close>

text \<open>
  An instrument (a pyvisa resource) and a resource manager. Both are objects without
  \<open>__bool__\<close> or \<open>__len__\<close>, so they are true in an \<open>if\<close>.
\<close>

record instr =
  instr_timeout :: "int option"
  instr_closed :: bool

record resmgr =
  rm_closed :: bool

datatype visa_call =
    ResourceManager
  | Open_resource str
  | Set_timeout int
  | Write str
  | Query str
  | Close_instrument
  | Close_rm

datatype query_outcome = QueryReturns str | QueryRaises py_exc

record VISAConnection =
  resource_string :: str
  visa_timeout :: int
  instrument :: "instr option"
  rm :: "resmgr option"

text \<open>
  The object with its surroundings, as for the socket. An \<open>instrument.query\<close> with
  nothing left in its list gets no reply and raises pyvisa's timeout error.
\<close>

record visa_world =
  visa_self :: VISAConnection
  visa_calls :: "visa_call list"
  visa_console :: "out list"
  rm_outcomes :: "py_exc option list"
  open_outcomes :: "py_exc option list"
  set_timeout_outcomes :: "py_exc option list"
  write_outcomes :: "py_exc option list"
  query_outcomes :: "query_outcome list"

definition visa_print :: "out \<Rightarrow> visa_world \<Rightarrow> visa_world" where
  "visa_print line w = w\<lparr>visa_console := visa_console w @ [line]\<rparr>"

definition visa_print_line :: "out \<Rightarrow> visa_world \<Rightarrow> (py_exc + unit) \<times> visa_world" where
  "visa_print_line line w = (Inr (), visa_print line w)"

definition visa_record_call :: "visa_call \<Rightarrow> visa_world \<Rightarrow> visa_world" where
  "visa_record_call c w = w\<lparr>visa_calls := visa_calls w @ [c]\<rparr>"

definition set_instrument :: "instr option \<Rightarrow> visa_world \<Rightarrow> visa_world" where
  "set_instrument i w = w\<lparr>visa_self := (visa_self w)\<lparr>instrument := i\<rparr>\<rparr>"

definition set_rm :: "resmgr option \<Rightarrow> visa_world \<Rightarrow> visa_world" where
  "set_rm m w = w\<lparr>visa_self := (visa_self w)\<lparr>rm := m\<rparr>\<rparr>"

text \<open>\<open>pyvisa.ResourceManager()\<close>\<close>

definition pyvisa_ResourceManager :: "visa_world \<Rightarrow> (py_exc + resmgr) \<times> visa_world" where
  "pyvisa_ResourceManager w =
     (let (r, rest) = next_outcome (rm_outcomes w);
          w1 = (visa_record_call ResourceManager w)\<lparr>rm_outcomes := rest\<rparr>
      in case r of Some e \<Rightarrow> (Inl e, w1) | None \<Rightarrow> (Inr \<lparr>rm_closed = False\<rparr>, w1))"

text \<open>\<open>self.rm.<method>\<close> and \<open>self.instrument.<method>\<close>: \<open>AttributeError\<close> on \<open>None\<close>.\<close>

definition get_rm :: "visa_world \<Rightarrow> (py_exc + resmgr) \<times> visa_world" where
  "get_rm w =
     (case rm (visa_self w) of None \<Rightarrow> (Inl AttributeError, w) | Some m \<Rightarrow> (Inr m, w))"

definition get_instrument :: "visa_world \<Rightarrow> (py_exc + instr) \<times> visa_world" where
  "get_instrument w =
     (case instrument (visa_self w) of
        None \<Rightarrow> (Inl AttributeError, w)
      | Some i \<Rightarrow> (Inr i, w))"

text \<open>\<open>m.open_resource(name)\<close>\<close>

definition open_resource :: "str \<Rightarrow> resmgr \<Rightarrow> visa_world \<Rightarrow> (py_exc + instr) \<times> visa_world" where
  "open_resource name m w =
     (let w1 = visa_record_call (Open_resource name) w in
      if rm_closed m then (Inl InvalidSession, w1)
      else
        (let (r, rest) = next_outcome (open_outcomes w1);
             w2 = w1\<lparr>open_outcomes := rest\<rparr>
         in case r of
              Some e \<Rightarrow> (Inl e, w2)
            | None \<Rightarrow> (Inr \<lparr>instr_timeout = None, instr_closed = False\<rparr>, w2)))"

text \<open>\<open>i.timeout = t\<close>\<close>

definition set_timeout :: "int \<Rightarrow> instr \<Rightarrow> visa_world \<Rightarrow> (py_exc + unit) \<times> visa_world" where
  "set_timeout t i w =
     (let w1 = visa_record_call (Set_timeout t) w in
      if instr_closed i then (Inl InvalidSession, w1)
      else
        (let (r, rest) = next_outcome (set_timeout_outcomes w1);
             w2 = w1\<lparr>set_timeout_outcomes := rest\<rparr>
         in case r of
              Some e \<Rightarrow> (Inl e, w2)
            | None \<Rightarrow> (Inr (), set_instrument (Some (i\<lparr>instr_timeout := Some t\<rparr>)) w2)))"

text \<open>\<open>i.write(message)\<close>\<close>

definition visa_write :: "str \<Rightarrow> instr \<Rightarrow> visa_world \<Rightarrow> (py_exc + unit) \<times> visa_world" where
  "visa_write message i w =
     (let w1 = visa_record_call (Write message) w in
      if instr_closed i then (Inl InvalidSession, w1)
      else
        (let (r, rest) = next_outcome (write_outcomes w1);
             w2 = w1\<lparr>write_outcomes := rest\<rparr>
         in case r of Some e \<Rightarrow> (Inl e, w2) | None \<Rightarrow> (Inr (), w2)))"

text \<open>\<open>i.query(message)\<close>: pyvisa writes the message and reads the reply.\<close>

definition instrument_query :: "str \<Rightarrow> instr \<Rightarrow> visa_world \<Rightarrow> (py_exc + str) \<times> visa_world" where
  "instrument_query message i w =
     (let w1 = visa_record_call (Query message) w in
      if instr_closed i then (Inl InvalidSession, w1)
      else
        (case query_outcomes w1 of
           [] \<Rightarrow> (Inl VisaIOError, w1)
         | QueryRaises e # rest \<Rightarrow> (Inl e, w1\<lparr>query_outcomes := rest\<rparr>)
         | QueryReturns reply # rest \<Rightarrow> (Inr reply, w1\<lparr>query_outcomes := rest\<rparr>)))"

text \<open>\<open>i.close()\<close> and \<open>m.close()\<close>: neither fails, and each may be repeated.\<close>

definition close_instrument :: "instr \<Rightarrow> visa_world \<Rightarrow> visa_world" where
  "close_instrument i w =
     set_instrument (Some (i\<lparr>instr_closed := True\<rparr>)) (visa_record_call Close_instrument w)"

definition close_rm :: "resmgr \<Rightarrow> visa_world \<Rightarrow> visa_world" where
  "close_rm m w = set_rm (Some (m\<lparr>rm_closed := True\<rparr>)) (visa_record_call Close_rm w)"

section \<open>The class \<open>VISAConnection\<close>\<close>

definition VISA_CONNECTION_TIMEOUT :: int where
  "VISA_CONNECTION_TIMEOUT = 5000"

text \<open>\<open>__init__\<close>\<close>

definition visa_init :: "str \<Rightarrow> int \<Rightarrow> VISAConnection" where
  "visa_init resource_arg timeout_arg =
     \<lparr>resource_string = resource_arg, visa_timeout = timeout_arg,
      instrument = None, rm = None\<rparr>"

text \<open>
  \<^verbatim>\<open>
  def connect(self):
      try:
          self.rm = pyvisa.ResourceManager()
          self.instrument = self.rm.open_resource(self.resource_string)
          self.instrument.timeout = self.timeout
          print(f"Connected to {self.resource_string}")
          return True
      except Exception as e:
          print(f"Connection error: {e}")
          return False
  \<close>
\<close>

definition visa_connect_body :: "visa_world \<Rightarrow> (py_exc + pyval) \<times> visa_world" where
  "visa_connect_body =
     andthen pyvisa_ResourceManager (\<lambda>m.
     andthen (\<lambda>w. (Inr (), set_rm (Some m) w)) (\<lambda>_.
     andthen get_rm (\<lambda>m1.
     andthen (\<lambda>w. open_resource (resource_string (visa_self w)) m1 w) (\<lambda>i.
     andthen (\<lambda>w. (Inr (), set_instrument (Some i) w)) (\<lambda>_.
     andthen get_instrument (\<lambda>i1.
     andthen (\<lambda>w. set_timeout (visa_timeout (visa_self w)) i1 w) (\<lambda>_.
     andthen (\<lambda>w. visa_print_line (Print_Connected_resource (resource_string (visa_self w))) w)
       (\<lambda>_.
     raise_or (Inr (PyBool True))))))))))"

definition visa_connect :: "visa_world \<Rightarrow> outcome \<times> visa_world" where
  "visa_connect =
     except_Exception visa_connect_body
       (\<lambda>e w. (PyBool False, visa_print (Print_Connection_error e) w))"

text \<open>
  \<^verbatim>\<open>
  def send_command(self, command):
      try:
          self.instrument.write(command)
          print(f"Sent: {command.strip()}")
      except Exception as e:
          print(f"Error sending command: {e}")
  \<close>
\<close>

definition visa_send_command_body ::
  "str \<Rightarrow> visa_world \<Rightarrow> (py_exc + pyval) \<times> visa_world" where
  "visa_send_command_body command =
     andthen get_instrument (\<lambda>i.
     andthen (visa_write command i) (\<lambda>_.
     andthen (visa_print_line (Print_Sent (strip command))) (\<lambda>_.
     raise_or (Inr PyNone))))"

definition visa_send_command :: "str \<Rightarrow> visa_world \<Rightarrow> outcome \<times> visa_world" where
  "visa_send_command command =
     except_Exception (visa_send_command_body command)
       (\<lambda>e w. (PyNone, visa_print (Print_Error_sending e) w))"

text \<open>
  \<^verbatim>\<open>
  def query(self, command):
      try:
          response = self.instrument.query(command).strip()
          print(f"Query: {command.strip()}")
          print(f"Response: {response}")
          return response
      except Exception as e:
          print(f"Query error: {e}")
          return None
  \<close>
\<close>

definition visa_query_body :: "str \<Rightarrow> visa_world \<Rightarrow> (py_exc + pyval) \<times> visa_world" where
  "visa_query_body command =
     andthen get_instrument (\<lambda>i.
     andthen (instrument_query command i) (\<lambda>reply.
     andthen (visa_print_line (Print_Query (strip command))) (\<lambda>_.
     andthen (visa_print_line (Print_Response (strip reply))) (\<lambda>_.
     raise_or (Inr (PyStr (strip reply)))))))"

definition visa_query :: "str \<Rightarrow> visa_world \<Rightarrow> outcome \<times> visa_world" where
  "visa_query command =
     except_Exception (visa_query_body command)
       (\<lambda>e w. (PyNone, visa_print (Print_Query_error e) w))"

text \<open>
  \<^verbatim>\<open>
  def disconnect(self):
      if self.instrument:
          self.instrument.close()
          print(f"Disconnected from {self.resource_string}")
      if self.rm:
          self.rm.close()
  \<close>
\<close>

definition visa_disconnect :: "visa_world \<Rightarrow> outcome \<times> visa_world" where
  "visa_disconnect w =
     (let w1 = (case instrument (visa_self w) of
                  None \<Rightarrow> w
                | Some i \<Rightarrow>
                    visa_print (Print_Disconnected (resource_string (visa_self w)))
                      (close_instrument i w));
          w2 = (case rm (visa_self w1) of None \<Rightarrow> w1 | Some m \<Rightarrow> close_rm m w1)
      in (Returned PyNone, w2))"

section \<open>Channel states and example worlds\<close>

text \<open>
  Neither class keeps a state field; the state of the channel is read off the object.
  A \<open>SocketConnection\<close> is connected when it holds a socket that is connected and not
  closed, and it holds no open socket when \<open>self.socket\<close> is \<open>None\<close> or a closed socket.
\<close>

definition is_connected :: "world \<Rightarrow> bool" where
  "is_connected w =
     (case socket (self w) of None \<Rightarrow> False | Some s \<Rightarrow> sock_connected s \<and> \<not> sock_closed s)"

definition no_open_socket :: "world \<Rightarrow> bool" where
  "no_open_socket w = (case socket (self w) of None \<Rightarrow> True | Some s \<Rightarrow> sock_closed s)"

text \<open>
  A \<open>VISAConnection\<close> is connected when it holds an instrument that is not closed, and it
  holds nothing open when neither its instrument nor its resource manager is open.
\<close>

definition visa_is_connected :: "visa_world \<Rightarrow> bool" where
  "visa_is_connected v =
     (case instrument (visa_self v) of None \<Rightarrow> False | Some i \<Rightarrow> \<not> instr_closed i)"

definition visa_no_open_session :: "visa_world \<Rightarrow> bool" where
  "visa_no_open_session v =
     ((case instrument (visa_self v) of None \<Rightarrow> True | Some i \<Rightarrow> instr_closed i)
      \<and> (case rm (visa_self v) of None \<Rightarrow> True | Some m \<Rightarrow> rm_closed m))"

text \<open>\<open>disconnect()\<close> called \<open>n\<close> times in a row.\<close>

primrec disconnect_times :: "nat \<Rightarrow> world \<Rightarrow> world" where
  "disconnect_times 0 w = w"
| "disconnect_times (Suc n) w = disconnect_times n (snd (disconnect w))"

primrec visa_disconnect_times :: "nat \<Rightarrow> visa_world \<Rightarrow> visa_world" where
  "visa_disconnect_times 0 v = v"
| "visa_disconnect_times (Suc n) v = visa_disconnect_times n (snd (visa_disconnect v))"

text \<open>
  The network lets the next \<open>sendall\<close> on a connected socket through; it lets the next
  \<open>n\<close> of them through.
\<close>

definition sendall_succeeds :: "world \<Rightarrow> bool" where
  "sendall_succeeds w = (fst (next_outcome (sendall_outcomes w)) = None)"

definition writes_succeed :: "nat \<Rightarrow> world \<Rightarrow> bool" where
  "writes_succeed n w = list_all (\<lambda>r. r = None) (take n (sendall_outcomes w))"

text \<open>
  The exceptions the network holds in store for \<open>sendall\<close> and \<open>recv\<close> all derive from
  \<open>Exception\<close>, as the socket module's \<open>OSError\<close> and timeouts do.
\<close>

definition raises_only_Exceptions :: "world \<Rightarrow> bool" where
  "raises_only_Exceptions w =
     (list_all (\<lambda>r. case r of None \<Rightarrow> True | Some e \<Rightarrow> is_Exception e) (sendall_outcomes w)
      \<and> list_all (\<lambda>r. case r of RecvData _ \<Rightarrow> True | RecvRaises e \<Rightarrow> is_Exception e)
            (recv_outcomes w))"

text \<open>The same for pyvisa's \<open>write\<close> and \<open>query\<close>.\<close>

definition visa_raises_only_Exceptions :: "visa_world \<Rightarrow> bool" where
  "visa_raises_only_Exceptions v =
     (list_all (\<lambda>r. case r of None \<Rightarrow> True | Some e \<Rightarrow> is_Exception e) (write_outcomes v)
      \<and> list_all (\<lambda>r. case r of QueryReturns _ \<Rightarrow> True | QueryRaises e \<Rightarrow> is_Exception e)
            (query_outcomes v))"

text \<open>A byte sequence that ends in \<open>\n\<close> and has no other \<open>\n\<close> in it.\<close>

definition one_terminator :: "bytes \<Rightarrow> bool" where
  "one_terminator data = (data \<noteq> [] \<and> last data = 0x0A \<and> 0x0A \<notin> set (butlast data))"

text \<open>ASCII text as a \<open>str\<close>.\<close>

definition ascii :: "string \<Rightarrow> str" where
  "ascii cs = map of_char cs"

text \<open>
  A freshly constructed \<open>SocketConnection("127.0.0.1")\<close> with nothing printed and no call
  made yet, in a network that answers \<open>connect\<close>, \<open>sendall\<close> and \<open>recv\<close> as listed.
\<close>

definition new_world ::
  "py_exc option list \<Rightarrow> py_exc option list \<Rightarrow> recv_outcome list \<Rightarrow> world" where
  "new_world connects sends recvs =
     \<lparr>self = init (ascii ''127.0.0.1'') DEFAULT_PORT CONNECTION_TIMEOUT,
      calls = [], console = [],
      create_outcomes = [], connect_outcomes = connects,
      sendall_outcomes = sends, recv_outcomes = recvs\<rparr>"

text \<open>The same after a successful \<open>connect()\<close>.\<close>

definition connected_world :: "py_exc option list \<Rightarrow> recv_outcome list \<Rightarrow> world" where
  "connected_world sends recvs = snd (connect (new_world [] sends recvs))"

text \<open>
  A freshly constructed \<open>VISAConnection\<close> on the default resource, where pyvisa answers
  \<open>ResourceManager()\<close>, \<open>open_resource\<close>, \<open>write\<close> and \<open>query\<close> as listed; and the same
  after a successful \<open>connect()\<close>.
\<close>

definition new_visa_world ::
  "py_exc option list \<Rightarrow> py_exc option list \<Rightarrow> py_exc option list \<Rightarrow> query_outcome list
     \<Rightarrow> visa_world" where
  "new_visa_world rms opens writes queries =
     \<lparr>visa_self = visa_init (ascii ''TCPIP0::192.168.123.1::inst0::INSTR'') VISA_CONNECTION_TIMEOUT,
      visa_calls = [], visa_console = [],
      rm_outcomes = rms, open_outcomes = opens, set_timeout_outcomes = [],
      write_outcomes = writes, query_outcomes = queries\<rparr>"

definition connected_visa_world :: "py_exc option list \<Rightarrow> query_outcome list \<Rightarrow> visa_world" where
  "connected_visa_world writes queries = snd (visa_connect (new_visa_world [] [] writes queries))"



section \<open>Facts about the text operations\<close>

lemma endswith_nl: "endswith s [0x0A] \<longleftrightarrow> s \<noteq> [] \<and> last s = 0x0A"
proof (cases s rule: rev_cases)
  case Nil
  then show ?thesis by (simp add: endswith_def)
next
  case (snoc xs x)
  then show ?thesis by (auto simp: endswith_def)
qed

lemma terminated_cases:
  "terminated c = (if c \<noteq> [] \<and> last c = 0x0A then c else c @ [0x0A])"
  by (simp add: terminated_def endswith_nl)

lemma terminated_last: "terminated c \<noteq> [] \<and> last (terminated c) = 0x0A"
  by (simp add: terminated_cases)

lemma terminated_butlast:
  "butlast (terminated c) = (if c \<noteq> [] \<and> last c = 0x0A then butlast c else c)"
  by (simp add: terminated_cases)

lemma utf8_cp_bytes: "b \<in> set (utf8_cp c) \<Longrightarrow> (b = c \<and> c < 0x80) \<or> 0x80 \<le> b"
  by (auto simp: utf8_cp_def split: if_splits)

lemma utf8_cp_nl: "utf8_cp 0x0A = [0x0A]"
  by (simp add: utf8_cp_def)

lemma nl_in_utf8: "0x0A \<in> set (concat (map utf8_cp s)) \<longleftrightarrow> 0x0A \<in> set s"
proof
  assume "0x0A \<in> set (concat (map utf8_cp s))"
  then obtain c where c: "c \<in> set s" "0x0A \<in> set (utf8_cp c)" by auto
  from utf8_cp_bytes [OF c(2)] have "c = 0x0A" by auto
  with c show "0x0A \<in> set s" by simp
next
  assume "0x0A \<in> set s"
  then show "0x0A \<in> set (concat (map utf8_cp s))"
    by (auto simp: utf8_cp_nl intro!: bexI [of _ "0x0A"])
qed

lemma utf8_snoc_nl: "concat (map utf8_cp (s @ [0x0A])) = concat (map utf8_cp s) @ [0x0A]"
  by (simp add: utf8_cp_nl)

lemma nl_not_in_butlast_terminated:
  assumes "0x0A \<notin> set (butlast c)"
  shows "0x0A \<notin> set (butlast (terminated c))"
proof (cases c rule: rev_cases)
  case Nil
  then show ?thesis
    by (simp add: terminated_butlast)
next
  case (snoc ys y)
  with assms show ?thesis
    by (simp add: terminated_butlast)
qed

lemma one_terminator_utf8:
  assumes "0x0A \<notin> set (butlast c)"
  shows "one_terminator (concat (map utf8_cp (terminated c)))"
proof -
  have t: "terminated c = butlast (terminated c) @ [0x0A]"
    using terminated_last [of c] by (metis append_butlast_last_id)
  from assms have "0x0A \<notin> set (butlast (terminated c))"
    by (rule nl_not_in_butlast_terminated)
  then have "0x0A \<notin> set (concat (map utf8_cp (butlast (terminated c))))"
    by (simp only: nl_in_utf8 not_False_eq_True)
  moreover have "concat (map utf8_cp (terminated c))
      = concat (map utf8_cp (butlast (terminated c))) @ [0x0A]"
    by (subst t) (rule utf8_snoc_nl)
  ultimately show ?thesis
    by (simp add: one_terminator_def)
qed

lemma utf8_decode_error: "utf8_decode bs = Inl e \<Longrightarrow> e = UnicodeDecodeError"
  by (induction bs arbitrary: e rule: utf8_decode.induct) (auto split: option.splits sum.splits)

lemma decode_error: "decode bs = Inl e \<Longrightarrow> e = UnicodeDecodeError"
  by (simp add: decode_def utf8_decode_error)

lemma encode_error: "encode s = Inl e \<Longrightarrow> e = UnicodeEncodeError"
  by (simp add: encode_def split: if_splits)

lemma isspace_nl: "isspace 0x0A"
  by (simp add: isspace_def)

lemma strip_snoc_space: "isspace x \<Longrightarrow> strip (s @ [x]) = strip s"
proof (cases "list_all isspace s")
  case True
  assume "isspace x"
  with True have "\<forall>y\<in>set (s @ [x]). isspace y" "\<forall>y\<in>set s. isspace y"
    by (simp_all add: list_all_iff)
  then have "dropWhile isspace (s @ [x]) = []" "dropWhile isspace s = []"
    by (simp_all only: dropWhile_eq_Nil_conv)
  then show ?thesis by (simp only: strip_def)
next
  case False
  assume x: "isspace x"
  from False have "dropWhile isspace (s @ [x]) = dropWhile isspace s @ [x]"
    by (auto simp: list_all_iff dropWhile_append1)
  with x show ?thesis by (simp add: strip_def)
qed

lemma strip_stripped: "stripped s \<Longrightarrow> strip s = s"
proof (cases s)
  case Nil then show ?thesis by (simp add: strip_def)
next
  case (Cons a list)
  assume "stripped s"
  with Cons have h: "\<not> isspace (hd s)" "\<not> isspace (last s)" "s \<noteq> []" by (auto simp: stripped_def)
  then have "dropWhile isspace s = s" by (cases s) auto
  moreover from h have "dropWhile isspace (rev s) = rev s"
    by (cases s rule: rev_cases) auto
  ultimately show ?thesis by (simp add: strip_def)
qed

lemma last_dropWhile: "dropWhile P xs \<noteq> [] \<Longrightarrow> last (dropWhile P xs) = last xs"
  by (induction xs) (auto split: if_splits)

lemma stripped_strip: "stripped (strip s)"
proof -
  define t where "t = dropWhile isspace s"
  define u where "u = dropWhile isspace (rev t)"
  have r: "strip s = rev u" by (simp add: strip_def t_def u_def)
  show ?thesis
  proof (cases "u = []")
    case True
    with r show ?thesis by (simp add: stripped_def)
  next
    case False
    then have hu: "\<not> isspace (hd u)"
      unfolding u_def by (simp add: hd_dropWhile)
    from False have "last u = last (rev t)"
      unfolding u_def by (rule last_dropWhile)
    moreover from False have "t \<noteq> []" by (auto simp: u_def)
    ultimately have "last u = hd t" by (simp add: last_rev)
    moreover from \<open>t \<noteq> []\<close> have "\<not> isspace (hd t)"
      unfolding t_def by (simp add: hd_dropWhile)
    ultimately have "\<not> isspace (last u)" by simp
    with hu False r show ?thesis
      by (simp add: stripped_def hd_rev last_rev)
  qed
qed

lemma utf8_next_1: "c < 0x80 \<Longrightarrow> utf8_next (c # rest) = Some (c, rest)"
  by (simp add: utf8_next_def)

lemma utf8_next_2:
  assumes "0x80 \<le> c" "c < 0x800"
  shows "utf8_next ((0xC0 + c div 0x40) # (0x80 + c mod 0x40) # rest) = Some (c, rest)"
proof -
  have a: "2 \<le> c div 0x40" "c div 0x40 < 0x20" "c mod 0x40 < 0x40"
    using assms by arith+
  have "c div 0x40 * 0x40 + c mod 0x40 = c" by simp
  with a show ?thesis
    by (simp add: utf8_next_def cont_def)
qed

lemma utf8_next_3:
  assumes "0x800 \<le> c" "c < 0x10000" "\<not> (0xD800 \<le> c \<and> c \<le> 0xDFFF)"
  shows "utf8_next ((0xE0 + c div 0x1000) # (0x80 + (c div 0x40) mod 0x40) # (0x80 + c mod 0x40) # rest)
         = Some (c, rest)"
proof -
  define q where "q = c div 0x1000"
  define r1 where "r1 = (c div 0x40) mod 0x40"
  define r0 where "r0 = c mod 0x40"
  have "c mod 0x1000 = 0x40 * r1 + r0"
    using mod_mult2_eq [of c "0x40" "0x40"] by (simp add: r1_def r0_def)
  moreover have "c = q * 0x1000 + c mod 0x1000"
    by (simp add: q_def)
  ultimately have c: "c = q * 0x1000 + r1 * 0x40 + r0"
    by simp
  have a: "q < 0x10" "r1 < 0x40" "r0 < 0x40"
    using assms(2) by (simp_all add: q_def r1_def r0_def less_mult_imp_div_less)
  have n: "utf8_next ((0xE0 + q) # (0x80 + r1) # (0x80 + r0) # rest) = Some (c, rest)"
    using a assms c by (simp add: utf8_next_def cont_def Let_def)
  then show ?thesis
    by (simp only: q_def r1_def r0_def)
qed

lemma utf8_next_4:
  assumes "0x10000 \<le> c" "c < 0x110000"
  shows "utf8_next ((0xF0 + c div 0x40000) # (0x80 + (c div 0x1000) mod 0x40)
            # (0x80 + (c div 0x40) mod 0x40) # (0x80 + c mod 0x40) # rest)
         = Some (c, rest)"
proof -
  define q where "q = c div 0x40000"
  define r2 where "r2 = (c div 0x1000) mod 0x40"
  define r1 where "r1 = (c div 0x40) mod 0x40"
  define r0 where "r0 = c mod 0x40"
  have "c mod 0x1000 = 0x40 * r1 + r0"
    using mod_mult2_eq [of c "0x40" "0x40"] by (simp add: r1_def r0_def)
  moreover have "c mod 0x40000 = 0x1000 * r2 + c mod 0x1000"
    using mod_mult2_eq [of c "0x1000" "0x40"] by (simp add: r2_def)
  moreover have "c = q * 0x40000 + c mod 0x40000"
    by (simp add: q_def)
  ultimately have c: "c = q * 0x40000 + r2 * 0x1000 + r1 * 0x40 + r0"
    by simp
  have a: "q < 5" "r2 < 0x40" "r1 < 0x40" "r0 < 0x40"
    using assms(2) by (simp_all add: q_def r2_def r1_def r0_def less_mult_imp_div_less)
  have n: "utf8_next ((0xF0 + q) # (0x80 + r2) # (0x80 + r1) # (0x80 + r0) # rest) = Some (c, rest)"
    using a assms c by (simp add: utf8_next_def cont_def Let_def)
  then show ?thesis
    by (simp only: q_def r2_def r1_def r0_def)
qed

lemma utf8_next_cp: "encodable c \<Longrightarrow> utf8_next (utf8_cp c @ rest) = Some (c, rest)"
  by (simp add: utf8_cp_def encodable_def utf8_next_1 utf8_next_2 utf8_next_3 utf8_next_4)

lemma utf8_cp_nonempty: "utf8_cp c \<noteq> []"
  by (simp add: utf8_cp_def)

lemma utf8_decode_encode:
  "list_all encodable s \<Longrightarrow> utf8_decode (concat (map utf8_cp s)) = Inr s"
proof (induction s)
  case Nil
  then show ?case by simp
next
  case (Cons c s)
  obtain b bs where b: "utf8_cp c @ concat (map utf8_cp s) = b # bs"
    using utf8_cp_nonempty [of c] by (cases "utf8_cp c @ concat (map utf8_cp s)") auto
  from Cons.prems have "utf8_next (utf8_cp c @ concat (map utf8_cp s)) = Some (c, concat (map utf8_cp s))"
    by (simp add: utf8_next_cp)
  with b Cons show ?case by simp
qed

lemma decode_encode: "encode s = Inr bs \<Longrightarrow> decode bs = Inr s"
  by (auto simp: encode_def decode_def utf8_decode_encode split: if_splits)

section \<open>Facts about the methods\<close>

lemmas run_defs =
  andthen_def raise_or_def print_line_def except_Exception_def get_socket_def
  sendall_def recv_def close_def settimeout_def sock_connect_def socket_socket_def
  next_outcome_def print_def record_call_def set_socket_def Let_def

lemmas text_defs =
  decode_def utf8_next_def cont_def strip_def isspace_def encode_def terminated_def
  endswith_def encodable_def utf8_cp_def ascii_def

lemmas world_defs =
  new_world_def connected_world_def connect_def connect_body_def init_def fresh_sock_def
  DEFAULT_PORT_def CONNECTION_TIMEOUT_def is_connected_def no_open_socket_def
  sendall_succeeds_def

lemma send_command_no_socket:
  "socket (self w) = None \<Longrightarrow>
   send_command command w = (Returned PyNone, print (Print_Error_sending AttributeError) w)"
  by (simp add: send_command_def send_command_body_def run_defs)

lemma query_no_socket:
  "socket (self w) = None \<Longrightarrow>
   query command w = (Returned PyNone, print (Print_Query_error AttributeError) w)"
  by (simp add: query_def query_body_def run_defs)

lemma is_connectedD:
  "is_connected w \<Longrightarrow> \<exists>s. socket (self w) = Some s \<and> sock_connected s \<and> \<not> sock_closed s"
  by (auto simp: is_connected_def split: option.splits)

lemma send_command_calls:
  assumes "is_connected w" "encode (terminated command) = Inr data"
  shows "calls (snd (send_command command w)) = calls w @ [Sendall data]"
proof -
  from assms(1) obtain s where "socket (self w) = Some s" "sock_connected s" "\<not> sock_closed s"
    by (auto dest: is_connectedD)
  with assms(2) show ?thesis
    by (simp add: send_command_def send_command_body_def run_defs split: option.splits list.splits)
qed

lemma query_calls:
  assumes "is_connected w" "sendall_succeeds w" "encode (terminated command) = Inr data"
  shows "calls (snd (query command w)) = calls w @ [Sendall data, Recv 65535]"
proof -
  from assms(1) obtain s where "socket (self w) = Some s" "sock_connected s" "\<not> sock_closed s"
    by (auto dest: is_connectedD)
  with assms(2,3) show ?thesis
    by (simp add: query_def query_body_def run_defs sendall_succeeds_def
        split: option.splits list.splits recv_outcome.splits sum.splits)
qed

lemma encode_terminated_given:
  "encode (terminated command) = Inr data \<Longrightarrow> endswith command [0x0A] \<Longrightarrow>
   encode command = Inr data"
  by (simp add: terminated_def)

lemma encode_terminated_appended:
  assumes "encode (terminated command) = Inr data" "\<not> endswith command [0x0A]"
  shows "\<exists>sent. encode command = Inr sent \<and> data = sent @ [0x0A]"
  using assms
  by (auto simp: terminated_def encode_def utf8_cp_nl split: if_splits)

lemma encode_terminated_last:
  assumes "encode (terminated command) = Inr data"
  shows "data \<noteq> [] \<and> last data = 0x0A"
proof -
  have t: "terminated command = butlast (terminated command) @ [0x0A]"
    using terminated_last [of command] by (metis append_butlast_last_id)
  from assms have "data = concat (map utf8_cp (terminated command))"
    by (simp add: encode_def split: if_splits)
  then have "data = concat (map utf8_cp (butlast (terminated command))) @ [0x0A]"
    by (subst (asm) t) (simp only: utf8_snoc_nl)
  then show ?thesis by simp
qed

lemma encode_terminated_one:
  assumes "encode (terminated command) = Inr data" "0x0A \<notin> set (butlast command)"
  shows "one_terminator data"
proof -
  from assms(1) have "data = concat (map utf8_cp (terminated command))"
    by (simp add: encode_def split: if_splits)
  with assms(2) show ?thesis
    by (simp add: one_terminator_utf8)
qed

lemmas visa_defs =
  visa_print_def visa_print_line_def visa_record_call_def set_instrument_def set_rm_def
  pyvisa_ResourceManager_def get_rm_def get_instrument_def open_resource_def set_timeout_def
  visa_write_def instrument_query_def close_instrument_def close_rm_def

lemmas visa_world_defs =
  new_visa_world_def connected_visa_world_def visa_connect_def visa_connect_body_def
  visa_init_def VISA_CONNECTION_TIMEOUT_def visa_is_connected_def visa_no_open_session_def

lemma visa_is_connectedD:
  "visa_is_connected v \<Longrightarrow> \<exists>i. instrument (visa_self v) = Some i \<and> \<not> instr_closed i"
  by (auto simp: visa_is_connected_def split: option.splits)

lemma query_read_raises:
  assumes "is_connected w" "sendall_succeeds w" "encode (terminated command) = Inr data"
    and "recv_outcomes w = RecvRaises e # rest" "is_Exception e"
  shows "fst (query command w) = Returned PyNone"
    and "console (snd (query command w)) =
           console w @ [Print_Query (strip (terminated command)), Print_Query_error e]"
    and "self (snd (query command w)) = self w"
proof -
  from assms(1) obtain s where "socket (self w) = Some s" "sock_connected s" "\<not> sock_closed s"
    by (auto dest: is_connectedD)
  with assms(2-) show "fst (query command w) = Returned PyNone"
    and "console (snd (query command w)) =
           console w @ [Print_Query (strip (terminated command)), Print_Query_error e]"
    and "self (snd (query command w)) = self w"
    by (cases "sendall_outcomes w";
        simp add: query_def query_body_def run_defs sendall_succeeds_def)+
qed

lemma query_read_nothing:
  assumes "is_connected w" "sendall_succeeds w" "encode (terminated command) = Inr data"
    and "recv_outcomes w = []"
  shows "fst (query command w) = Returned PyNone"
    and "console (snd (query command w)) =
           console w @ [Print_Query (strip (terminated command)), Print_Query_error TimeoutError]"
    and "self (snd (query command w)) = self w"
proof -
  from assms(1) obtain s where "socket (self w) = Some s" "sock_connected s" "\<not> sock_closed s"
    by (auto dest: is_connectedD)
  with assms(2-) show "fst (query command w) = Returned PyNone"
    and "console (snd (query command w)) =
           console w @ [Print_Query (strip (terminated command)), Print_Query_error TimeoutError]"
    and "self (snd (query command w)) = self w"
    by (cases "sendall_outcomes w";
        simp add: query_def query_body_def run_defs sendall_succeeds_def)+
qed

lemma query_read_data:
  assumes "is_connected w" "sendall_succeeds w" "encode (terminated command) = Inr data"
    and "recv_outcomes w = RecvData arrived # rest"
  shows "fst (query command w) =
           (case decode (take 65535 arrived) of
              Inl e \<Rightarrow> Returned PyNone
            | Inr text \<Rightarrow> Returned (PyStr (strip text)))"
    and "console (snd (query command w)) =
           console w @ [Print_Query (strip (terminated command)),
             (case decode (take 65535 arrived) of
                Inl e \<Rightarrow> Print_Query_error UnicodeDecodeError
              | Inr text \<Rightarrow> Print_Response (strip text))]"
    and "recv_outcomes (snd (query command w)) =
           (if 65535 < length arrived then RecvData (drop 65535 arrived) # rest else rest)"
    and "self (snd (query command w)) = self w"
proof -
  from assms(1) obtain s where s: "socket (self w) = Some s" "sock_connected s" "\<not> sock_closed s"
    by (auto dest: is_connectedD)
  have d: "decode (take 65535 arrived) = Inl UnicodeDecodeError
         \<or> (\<exists>text. decode (take 65535 arrived) = Inr text)"
    by (cases "decode (take 65535 arrived)") (auto dest: decode_error)
  from d s assms(2-) show "fst (query command w) =
           (case decode (take 65535 arrived) of
              Inl e \<Rightarrow> Returned PyNone
            | Inr text \<Rightarrow> Returned (PyStr (strip text)))"
    by (cases "sendall_outcomes w";
        auto simp add: query_def query_body_def run_defs sendall_succeeds_def)
  from d s assms(2-) show "console (snd (query command w)) =
           console w @ [Print_Query (strip (terminated command)),
             (case decode (take 65535 arrived) of
                Inl e \<Rightarrow> Print_Query_error UnicodeDecodeError
              | Inr text \<Rightarrow> Print_Response (strip text))]"
    by (cases "sendall_outcomes w";
        auto simp add: query_def query_body_def run_defs sendall_succeeds_def)
  from d s assms(2-) show "recv_outcomes (snd (query command w)) =
           (if 65535 < length arrived then RecvData (drop 65535 arrived) # rest else rest)"
    by (cases "sendall_outcomes w";
        auto simp add: query_def query_body_def run_defs sendall_succeeds_def)
  from d s assms(2-) show "self (snd (query command w)) = self w"
    by (cases "sendall_outcomes w";
        auto simp add: query_def query_body_def run_defs sendall_succeeds_def)
qed

lemma writes_succeed_first: "writes_succeed (Suc n) w \<Longrightarrow> sendall_succeeds w"
  by (cases "sendall_outcomes w") (simp_all add: writes_succeed_def sendall_succeeds_def next_outcome_def)

lemma query_self: "self (snd (query command w)) = self w"
  by (auto simp: query_def query_body_def run_defs
      split: option.splits sum.splits list.splits recv_outcome.splits)

lemma query_is_connected: "is_connected (snd (query command w)) = is_connected w"
  by (simp add: is_connected_def query_self)

lemma query_sendall_outcomes:
  assumes "is_connected w" "encode (terminated command) = Inr data"
  shows "sendall_outcomes (snd (query command w)) = tl (sendall_outcomes w)"
proof -
  from assms(1) obtain s where "socket (self w) = Some s" "sock_connected s" "\<not> sock_closed s"
    by (auto dest: is_connectedD)
  with assms(2) show ?thesis
    by (auto simp: query_def query_body_def run_defs
      split: option.splits sum.splits list.splits recv_outcome.splits)
qed

lemma query_calls_any:
  "calls (snd (query command w)) = calls w
   \<or> (\<exists>data. calls (snd (query command w)) = calls w @ [Sendall data]
            \<or> calls (snd (query command w)) = calls w @ [Sendall data, Recv 65535])"
  by (auto simp: query_def query_body_def run_defs
      split: option.splits sum.splits list.splits recv_outcome.splits)

lemma strip_reply: "strip (v @ [0x0A]) = strip v"
  by (rule strip_snoc_space) (rule isspace_nl)

lemma visa_query_reply:
  assumes "visa_is_connected v" "query_outcomes v = QueryReturns reply # rest"
  shows "fst (visa_query command v) = Returned (PyStr (strip reply))"
proof -
  from assms(1) obtain i where "instrument (visa_self v) = Some i" "\<not> instr_closed i"
    by (auto dest: visa_is_connectedD)
  with assms(2) show ?thesis
    by (simp add: visa_query_def visa_query_body_def visa_defs
        andthen_def raise_or_def except_Exception_def)
qed









lemma disconnect_returns: "fst (disconnect w) = Returned PyNone"
  by (simp add: disconnect_def split: option.splits)

lemma disconnect_closes: "no_open_socket (snd (disconnect w))"
  by (simp add: disconnect_def no_open_socket_def run_defs split: option.splits)

lemma disconnect_times_closed: "no_open_socket w \<Longrightarrow> no_open_socket (disconnect_times n w)"
  by (induction n arbitrary: w) (simp_all add: disconnect_closes)

lemma disconnect_no_socket: "socket (self w) = None \<Longrightarrow> disconnect w = (Returned PyNone, w)"
  by (simp add: disconnect_def)

lemma disconnect_socket:
  "socket (self w) = Some s \<Longrightarrow>
   disconnect w =
     (Returned PyNone,
      w\<lparr>self := (self w)\<lparr>socket := Some (s\<lparr>sock_closed := True\<rparr>)\<rparr>,
        calls := calls w @ [Close],
        console := console w @ [Print_Disconnected (ip (self w))]\<rparr>)"
  by (simp add: disconnect_def run_defs)

lemma visa_disconnect_returns: "fst (visa_disconnect v) = Returned PyNone"
  by (simp add: visa_disconnect_def Let_def)

lemma visa_disconnect_closes: "visa_no_open_session (snd (visa_disconnect v))"
  by (simp add: visa_disconnect_def visa_no_open_session_def visa_defs Let_def
      split: option.splits)

lemma visa_disconnect_times_closed:
  "visa_no_open_session v \<Longrightarrow> visa_no_open_session (visa_disconnect_times n v)"
  by (induction n arbitrary: v) (simp_all add: visa_disconnect_closes)

lemma visa_disconnect_nothing:
  "instrument (visa_self v) = None \<Longrightarrow> rm (visa_self v) = None \<Longrightarrow>
   visa_disconnect v = (Returned PyNone, v)"
  by (simp add: visa_disconnect_def)

lemma send_command_body_raises:
  assumes "send_command_body command w = (Inl e, w1)" "raises_only_Exceptions w"
  shows "is_Exception e"
  using assms
  by (auto simp: send_command_body_def run_defs raises_only_Exceptions_def encode_def
      split: option.splits sum.splits list.splits if_splits)

lemma send_command_body_returns:
  "send_command_body command w = (Inr x, w1) \<Longrightarrow> x = PyNone"
  by (auto simp: send_command_body_def run_defs
      split: option.splits sum.splits list.splits if_splits)

lemma query_body_raises:
  assumes "query_body command w = (Inl e, w1)" "raises_only_Exceptions w"
  shows "is_Exception e"
  using assms
  by (auto simp: query_body_def run_defs raises_only_Exceptions_def encode_def
      dest: decode_error
      split: option.splits sum.splits list.splits if_splits recv_outcome.splits)

lemma query_body_returns:
  "query_body command w = (Inr x, w1) \<Longrightarrow>
   \<exists>received text. decode received = Inr text \<and> x = PyStr (strip text)"
  by (auto simp: query_body_def run_defs
      split: option.splits sum.splits list.splits if_splits recv_outcome.splits)

lemma send_command_returns_None:
  assumes "raises_only_Exceptions w"
  shows "fst (send_command command w) = Returned PyNone"
proof (cases "send_command_body command w")
  case (Pair r w1)
  show ?thesis
  proof (cases r)
    case (Inl e)
    with Pair assms have "is_Exception e"
      by (auto dest: send_command_body_raises)
    with Pair Inl show ?thesis
      by (simp add: send_command_def except_Exception_def print_def)
  next
    case (Inr x)
    with Pair have "x = PyNone"
      by (auto dest: send_command_body_returns)
    with Pair Inr show ?thesis
      by (simp add: send_command_def except_Exception_def)
  qed
qed

lemma query_returns_text_or_None:
  assumes "raises_only_Exceptions w"
  shows "fst (query command w) = Returned PyNone
       \<or> (\<exists>received text. decode received = Inr text
             \<and> fst (query command w) = Returned (PyStr (strip text)))"
proof (cases "query_body command w")
  case (Pair r w1)
  show ?thesis
  proof (cases r)
    case (Inl e)
    with Pair assms have "is_Exception e"
      by (auto dest: query_body_raises)
    with Pair Inl show ?thesis
      by (simp add: query_def except_Exception_def print_def)
  next
    case (Inr x)
    with Pair obtain received t where "decode received = Inr t" "x = PyStr (strip t)"
      by (auto dest: query_body_returns)
    with Pair Inr show ?thesis
      by (auto simp: query_def except_Exception_def)
  qed
qed

lemma visa_send_command_returns_None:
  assumes "visa_raises_only_Exceptions v"
  shows "fst (visa_send_command command v) = Returned PyNone"
  using assms
  by (auto simp: visa_send_command_def visa_send_command_body_def visa_defs
      andthen_def raise_or_def except_Exception_def next_outcome_def Let_def
      visa_raises_only_Exceptions_def
      split: option.splits sum.splits list.splits if_splits)

lemma visa_query_returns_text_or_None:
  assumes "visa_raises_only_Exceptions v"
  shows "fst (visa_query command v) = Returned PyNone
       \<or> (\<exists>reply. fst (visa_query command v) = Returned (PyStr (strip reply)))"
  using assms
  by (auto simp: visa_query_def visa_query_body_def visa_defs
      andthen_def raise_or_def except_Exception_def next_outcome_def Let_def
      visa_raises_only_Exceptions_def
      split: option.splits sum.splits list.splits if_splits query_outcome.splits)









section \<open>The claims\<close>

subsection \<open>C1\<close>

text \<open>
  C1 (as amended). On a connected channel whose write goes through, \<open>send_command\<close> and
  \<open>query\<close> hand the socket exactly one \<open>sendall\<close>, with the UTF-8 bytes of the command
  followed by one \<open>\n\<close> if the command did not end in one, and unchanged otherwise: one
  terminator is appended when it is missing, never two. What is sent therefore always ends
  in \<open>\n\<close>. It ends in exactly one \<open>\n\<close> and has none inside whenever the command
  itself has no \<open>\n\<close> before its last character; a \<open>\n\<close> inside the command is sent as
  it stands.
\<close>

theorem C1_terminator_appended_once:
  assumes "is_connected w" "sendall_succeeds w" "encode (terminated command) = Inr data"
  shows "calls (snd (send_command command w)) = calls w @ [Sendall data]
       \<and> calls (snd (query command w)) = calls w @ [Sendall data, Recv 65535]
       \<and> (endswith command [0x0A] \<longrightarrow> encode command = Inr data)
       \<and> (\<not> endswith command [0x0A] \<longrightarrow>
            (\<exists>sent. encode command = Inr sent \<and> data = sent @ [0x0A]))
       \<and> data \<noteq> [] \<and> last data = 0x0A
       \<and> (0x0A \<notin> set (butlast command) \<longrightarrow> one_terminator data)"
proof (intro conjI impI)
  show "calls (snd (send_command command w)) = calls w @ [Sendall data]"
    by (rule send_command_calls [OF assms(1) assms(3)])
  show "calls (snd (query command w)) = calls w @ [Sendall data, Recv 65535]"
    by (rule query_calls [OF assms])
  from encode_terminated_last [OF assms(3)] show "data \<noteq> []" and "last data = 0x0A"
    by blast+
next
  assume "endswith command [0x0A]"
  with assms(3) show "encode command = Inr data"
    by (rule encode_terminated_given)
next
  assume "\<not> endswith command [0x0A]"
  with assms(3) show "\<exists>sent. encode command = Inr sent \<and> data = sent @ [0x0A]"
    by (rule encode_terminated_appended)
next
  assume "0x0A \<notin> set (butlast command)"
  with assms(3) show "one_terminator data"
    by (rule encode_terminated_one)
qed

theorem C1_witness:
  "is_connected (connected_world [] []) \<and> sendall_succeeds (connected_world [] [])
   \<and> encode (terminated (ascii ''OUTP 1'')) = Inr (ascii ''OUTP 1'' @ [0x0A])
   \<and> calls (snd (send_command (ascii ''OUTP 1'') (connected_world [] []))) =
       calls (connected_world [] []) @ [Sendall (ascii ''OUTP 1'' @ [0x0A])]
   \<and> one_terminator (ascii ''OUTP 1'' @ [0x0A])"
proof -
  have h: "is_connected (connected_world [] [])" "sendall_succeeds (connected_world [] [])"
    "encode (terminated (ascii ''OUTP 1'')) = Inr (ascii ''OUTP 1'' @ [0x0A])"
    by (simp_all add: run_defs text_defs world_defs)
  have n: "0x0A \<notin> set (butlast (ascii ''OUTP 1''))"
    by (simp add: ascii_def)
  from C1_terminator_appended_once [OF h] h n show ?thesis
    by simp
qed

text \<open>
  C1 as stated fails for commands that already hold a \<open>\n\<close> before their end:
  \<open>"A\n\n"\<close> goes out as it is, ending in two terminators, and \<open>"A\nB?"\<close> goes out
  with the embedded terminator and one more appended.
\<close>

theorem C1_counterexample:
  "calls (snd (send_command (ascii ''A'' @ [0x0A, 0x0A]) (connected_world [] []))) =
     [Settimeout 5, Connect (ascii ''127.0.0.1'') 5025, Sendall [0x41, 0x0A, 0x0A]]
   \<and> \<not> one_terminator [0x41, 0x0A, 0x0A]
   \<and> calls (snd (query (ascii ''A'' @ [0x0A] @ ascii ''B?'') (connected_world [] []))) =
     [Settimeout 5, Connect (ascii ''127.0.0.1'') 5025, Sendall [0x41, 0x0A, 0x42, 0x3F, 0x0A],
      Recv 65535]
   \<and> \<not> one_terminator [0x41, 0x0A, 0x42, 0x3F, 0x0A]"
  by (simp add: send_command_def send_command_body_def query_def query_body_def
      run_defs text_defs world_defs one_terminator_def)

subsection \<open>C2\<close>

text \<open>
  C2 (as amended). On a channel whose \<open>self.socket\<close> is still \<open>None\<close>, as \<open>__init__\<close>
  leaves it, \<open>send_command\<close> and \<open>query\<close> make no call on any socket: the list of calls
  is unchanged, as are the object and the network. The \<open>AttributeError\<close> of the missing
  socket is caught and printed, and both methods return \<open>None\<close>.
\<close>

theorem C2_never_connected_no_io:
  assumes "self w = init ip_arg port_arg timeout_arg"
  shows "send_command command w =
           (Returned PyNone, w\<lparr>console := console w @ [Print_Error_sending AttributeError]\<rparr>)
       \<and> query command w =
           (Returned PyNone, w\<lparr>console := console w @ [Print_Query_error AttributeError]\<rparr>)
       \<and> calls (snd (send_command command w)) = calls w
       \<and> calls (snd (query command w)) = calls w"
proof -
  from assms have "socket (self w) = None"
    by (simp add: init_def)
  then show ?thesis
    by (simp add: send_command_no_socket query_no_socket print_def)
qed

theorem C2_witness:
  "self (new_world [] [] []) = init (ascii ''127.0.0.1'') 5025 5
   \<and> send_command (ascii ''OUTP 1'') (new_world [] [] []) =
       (Returned PyNone, (new_world [] [] [])\<lparr>console := [Print_Error_sending AttributeError]\<rparr>)
   \<and> calls (snd (query (ascii ''*OPC?'') (new_world [] [] []))) = []"
proof -
  have h: "self (new_world [] [] []) = init (ascii ''127.0.0.1'') 5025 5"
    by (simp add: new_world_def DEFAULT_PORT_def CONNECTION_TIMEOUT_def)
  from C2_never_connected_no_io [OF h, of "ascii ''OUTP 1''"]
       C2_never_connected_no_io [OF h, of "ascii ''*OPC?''"] h
  show ?thesis
    by (simp add: new_world_def)
qed

text \<open>
  C2 as stated fails: the call on a never-connected channel does not fail with an error
  of its own. \<open>send_command\<close> hands the caller the very outcome of a successful send, and
  \<open>query\<close> the outcome it has after a read timeout.
\<close>

theorem C2_counterexample:
  "fst (send_command (ascii ''OUTP 1'') (new_world [] [] [])) = Returned PyNone
   \<and> fst (send_command (ascii ''OUTP 1'') (connected_world [] [])) = Returned PyNone
   \<and> calls (snd (send_command (ascii ''OUTP 1'') (connected_world [] []))) =
       [Settimeout 5, Connect (ascii ''127.0.0.1'') 5025, Sendall (ascii ''OUTP 1'' @ [0x0A])]
   \<and> fst (query (ascii ''*OPC?'') (new_world [] [] [])) = Returned PyNone
   \<and> fst (query (ascii ''*OPC?'') (connected_world [] [])) = Returned PyNone
   \<and> console (snd (query (ascii ''*OPC?'') (connected_world [] []))) =
       [Print_Connected (ascii ''127.0.0.1'') 5025, Print_Query (ascii ''*OPC?''),
        Print_Query_error TimeoutError]"
  by (simp add: send_command_def send_command_body_def query_def query_body_def
      run_defs text_defs world_defs)

subsection \<open>C3\<close>




subsection \<open>C4\<close>

text \<open>
  C4 (as amended). On a connected channel whose write went through, a read that runs
  into the timeout makes \<open>query\<close> print a query-error line naming the timeout and return
  \<open>None\<close>, with the object unchanged. The return value does not tell the timeout from
  another error of the read or from bytes that do not decode: \<open>query\<close> returns \<open>None\<close>
  for all three, and only the printed line names the exception.
\<close>

theorem C4_timeout_printed_returns_None:
  assumes "is_connected w" "sendall_succeeds w" "encode (terminated command) = Inr data"
  shows "(recv_outcomes w = [] \<or> (\<exists>rest. recv_outcomes w = RecvRaises TimeoutError # rest) \<longrightarrow>
            fst (query command w) = Returned PyNone
          \<and> console (snd (query command w)) =
              console w @ [Print_Query (strip (terminated command)),
                           Print_Query_error TimeoutError]
          \<and> self (snd (query command w)) = self w)
       \<and> (recv_outcomes w = RecvRaises e # rest' \<and> is_Exception e \<longrightarrow>
            fst (query command w) = Returned PyNone
          \<and> console (snd (query command w)) =
              console w @ [Print_Query (strip (terminated command)), Print_Query_error e])
       \<and> (recv_outcomes w = RecvData arrived # rest'' \<and> decode (take 65535 arrived) = Inl e' \<longrightarrow>
            fst (query command w) = Returned PyNone
          \<and> console (snd (query command w)) =
              console w @ [Print_Query (strip (terminated command)),
                           Print_Query_error UnicodeDecodeError])"
  using assms
  by (auto simp: query_read_nothing query_read_raises query_read_data)

theorem C4_witness:
  "is_connected (connected_world [] []) \<and> sendall_succeeds (connected_world [] [])
   \<and> recv_outcomes (connected_world [] []) = []
   \<and> fst (query (ascii ''MEAS:VOLT?'') (connected_world [] [])) = Returned PyNone
   \<and> console (snd (query (ascii ''MEAS:VOLT?'') (connected_world [] []))) =
       [Print_Connected (ascii ''127.0.0.1'') 5025, Print_Query (ascii ''MEAS:VOLT?''),
        Print_Query_error TimeoutError]"
proof -
  have h: "is_connected (connected_world [] [])" "sendall_succeeds (connected_world [] [])"
    "encode (terminated (ascii ''MEAS:VOLT?'')) = Inr (ascii ''MEAS:VOLT?'' @ [0x0A])"
    by (simp_all add: run_defs text_defs world_defs)
  have r: "recv_outcomes (connected_world [] []) = []"
    "console (connected_world [] []) = [Print_Connected (ascii ''127.0.0.1'') 5025]"
    "strip (terminated (ascii ''MEAS:VOLT?'')) = ascii ''MEAS:VOLT?''"
    by (simp_all add: run_defs text_defs world_defs)
  from C4_timeout_printed_returns_None [OF h, of e rest' arrived rest'' e'] h r
  show ?thesis by simp
qed

text \<open>
  C4 as stated fails: a read timeout, a generic \<open>OSError\<close> of the read and a reply that
  is not UTF-8 give the caller the same outcome.
\<close>

theorem C4_counterexample:
  "fst (query (ascii ''MEAS:VOLT?'') (connected_world [] [RecvRaises TimeoutError])) =
     Returned PyNone
   \<and> fst (query (ascii ''MEAS:VOLT?'') (connected_world [] [RecvRaises OSError])) =
     Returned PyNone
   \<and> fst (query (ascii ''MEAS:VOLT?'') (connected_world [] [RecvData [0xFF, 0x0A]])) =
     Returned PyNone"
  by (simp add: query_def query_body_def run_defs text_defs world_defs)

subsection \<open>C5\<close>

text \<open>
  C5. When the single read of a \<open>query\<close> returns the payload \<open>val\<close> followed by \<open>\n\<close>
  (bytes that decode to that text, or the encoding of that text), \<open>query\<close> returns \<open>val\<close>
  with all whitespace stripped from both ends; the result has no whitespace at either
  end, and it is \<open>val\<close> itself when \<open>val\<close> has none. The same holds for
  \<open>VISAConnection.query\<close> when the instrument's reply is that text.
\<close>

theorem C5_query_strips_terminator:
  assumes "is_connected w" "sendall_succeeds w" "encode (terminated command) = Inr data"
    and "recv_outcomes w = RecvData payload # rest" "length payload \<le> 65535"
    and "decode payload = Inr (val @ [0x0A]) \<or> encode (val @ [0x0A]) = Inr payload"
    and "visa_is_connected v" "query_outcomes v = QueryReturns (val @ [0x0A]) # vrest"
  shows "fst (query command w) = Returned (PyStr (strip val))
       \<and> fst (visa_query command v) = Returned (PyStr (strip val))
       \<and> stripped (strip val)
       \<and> (stripped val \<longrightarrow>
            fst (query command w) = Returned (PyStr val)
          \<and> fst (visa_query command v) = Returned (PyStr val))"
proof -
  from assms(6) have "decode payload = Inr (val @ [0x0A])"
    by (auto dest: decode_encode)
  with assms(5) have "decode (take 65535 payload) = Inr (val @ [0x0A])"
    by simp
  with assms(1-4) have "fst (query command w) = Returned (PyStr (strip val))"
    by (simp add: query_read_data strip_reply)
  moreover from assms(7,8) have "fst (visa_query command v) = Returned (PyStr (strip val))"
    by (simp add: visa_query_reply strip_reply)
  ultimately show ?thesis
    by (simp add: stripped_strip strip_stripped)
qed

theorem C5_witness:
  "is_connected (connected_world [] [RecvData (ascii ''100.000000'' @ [0x0A])])
   \<and> sendall_succeeds (connected_world [] [RecvData (ascii ''100.000000'' @ [0x0A])])
   \<and> encode (ascii ''100.000000'' @ [0x0A]) = Inr (ascii ''100.000000'' @ [0x0A])
   \<and> visa_is_connected (connected_visa_world [] [QueryReturns (ascii ''100.000000'' @ [0x0A])])
   \<and> stripped (ascii ''100.000000'')
   \<and> fst (query (ascii ''MEAS:VOLT?'') (connected_world [] [RecvData (ascii ''100.000000'' @ [0x0A])]))
       = Returned (PyStr (ascii ''100.000000''))
   \<and> fst (visa_query (ascii ''MEAS:VOLT?'')
            (connected_visa_world [] [QueryReturns (ascii ''100.000000'' @ [0x0A])]))
       = Returned (PyStr (ascii ''100.000000''))"
proof -
  let ?w = "connected_world [] [RecvData (ascii ''100.000000'' @ [0x0A])]"
  let ?v = "connected_visa_world [] [QueryReturns (ascii ''100.000000'' @ [0x0A])]"
  have h: "is_connected ?w" "sendall_succeeds ?w"
    "encode (terminated (ascii ''MEAS:VOLT?'')) = Inr (ascii ''MEAS:VOLT?'' @ [0x0A])"
    "recv_outcomes ?w = RecvData (ascii ''100.000000'' @ [0x0A]) # []"
    "length (ascii ''100.000000'' @ [0x0A]) \<le> 65535"
    by (simp_all add: run_defs text_defs world_defs)
  have e: "encode (ascii ''100.000000'' @ [0x0A]) = Inr (ascii ''100.000000'' @ [0x0A])"
    by (simp add: text_defs)
  then have p: "decode (ascii ''100.000000'' @ [0x0A]) = Inr (ascii ''100.000000'' @ [0x0A])
      \<or> encode (ascii ''100.000000'' @ [0x0A]) = Inr (ascii ''100.000000'' @ [0x0A])"
    by simp
  have hv: "visa_is_connected ?v"
    "query_outcomes ?v = QueryReturns (ascii ''100.000000'' @ [0x0A]) # []"
    by (simp_all add: visa_defs visa_world_defs andthen_def raise_or_def
        except_Exception_def next_outcome_def Let_def)
  have s: "stripped (ascii ''100.000000'')"
    by (simp add: stripped_def text_defs)
  from C5_query_strips_terminator [OF h p hv] h e hv s show ?thesis
    by (simp add: strip_stripped)
qed

subsection \<open>C6\<close>

text \<open>
  C6 (as amended). A call to \<open>query\<close> makes at most one \<open>sendall\<close> and at most one
  \<open>recv\<close>, the \<open>recv\<close> (of at most 65535 bytes) only after the \<open>sendall\<close>. On a
  connected channel whose write goes through it makes exactly one \<open>sendall\<close> followed by
  exactly one \<open>recv\<close>, whatever the read then does; and two such queries in a row are
  seen by the socket as write, read, write, read.
\<close>

theorem C6_one_write_then_one_read:
  "(calls (snd (query a w)) = calls w
    \<or> (\<exists>data. calls (snd (query a w)) = calls w @ [Sendall data]
             \<or> calls (snd (query a w)) = calls w @ [Sendall data, Recv 65535]))
   \<and> (is_connected w \<and> sendall_succeeds w \<and> encode (terminated a) = Inr data_a \<longrightarrow>
        calls (snd (query a w)) = calls w @ [Sendall data_a, Recv 65535])
   \<and> (is_connected w \<and> writes_succeed 2 w \<and> encode (terminated a) = Inr data_a
        \<and> encode (terminated b) = Inr data_b \<longrightarrow>
        calls (snd (query b (snd (query a w)))) =
          calls w @ [Sendall data_a, Recv 65535, Sendall data_b, Recv 65535])"
proof (intro conjI impI)
  show "calls (snd (query a w)) = calls w
    \<or> (\<exists>data. calls (snd (query a w)) = calls w @ [Sendall data]
             \<or> calls (snd (query a w)) = calls w @ [Sendall data, Recv 65535])"
    by (rule query_calls_any)
next
  assume "is_connected w \<and> sendall_succeeds w \<and> encode (terminated a) = Inr data_a"
  then show "calls (snd (query a w)) = calls w @ [Sendall data_a, Recv 65535]"
    by (simp add: query_calls)
next
  assume h: "is_connected w \<and> writes_succeed 2 w \<and> encode (terminated a) = Inr data_a
        \<and> encode (terminated b) = Inr data_b"
  then have first: "sendall_succeeds w"
    by (auto simp: numeral_2_eq_2 dest: writes_succeed_first)
  with h have c1: "calls (snd (query a w)) = calls w @ [Sendall data_a, Recv 65535]"
    by (simp add: query_calls)
  from h have so: "sendall_outcomes (snd (query a w)) = tl (sendall_outcomes w)"
    by (simp add: query_sendall_outcomes)
  from h have "sendall_succeeds (snd (query a w))"
    unfolding sendall_succeeds_def so
    by (cases "sendall_outcomes w"; cases "tl (sendall_outcomes w)")
       (auto simp: writes_succeed_def next_outcome_def numeral_2_eq_2)
  moreover from h have "is_connected (snd (query a w))"
    by (simp add: query_is_connected)
  ultimately have "calls (snd (query b (snd (query a w)))) =
      calls (snd (query a w)) @ [Sendall data_b, Recv 65535]"
    using h by (simp add: query_calls)
  with c1 show "calls (snd (query b (snd (query a w)))) =
          calls w @ [Sendall data_a, Recv 65535, Sendall data_b, Recv 65535]"
    by simp
qed

theorem C6_witness:
  "is_connected (connected_world [] [RecvData (ascii ''1'' @ [0x0A]), RecvData (ascii ''100.000000'' @ [0x0A])])
   \<and> writes_succeed 2 (connected_world [] [RecvData (ascii ''1'' @ [0x0A]), RecvData (ascii ''100.000000'' @ [0x0A])])
   \<and> calls (snd (query (ascii ''MEAS:VOLT?'') (snd (query (ascii ''*OPC?'')
        (connected_world [] [RecvData (ascii ''1'' @ [0x0A]), RecvData (ascii ''100.000000'' @ [0x0A])]))))) =
      [Settimeout 5, Connect (ascii ''127.0.0.1'') 5025,
       Sendall (ascii ''*OPC?'' @ [0x0A]), Recv 65535,
       Sendall (ascii ''MEAS:VOLT?'' @ [0x0A]), Recv 65535]"
proof -
  let ?w = "connected_world [] [RecvData (ascii ''1'' @ [0x0A]), RecvData (ascii ''100.000000'' @ [0x0A])]"
  have h: "is_connected ?w" "writes_succeed 2 ?w" "sendall_succeeds ?w"
    "encode (terminated (ascii ''*OPC?'')) = Inr (ascii ''*OPC?'' @ [0x0A])"
    "encode (terminated (ascii ''MEAS:VOLT?'')) = Inr (ascii ''MEAS:VOLT?'' @ [0x0A])"
    by (simp_all add: run_defs text_defs world_defs writes_succeed_def)
  have c: "calls ?w = [Settimeout 5, Connect (ascii ''127.0.0.1'') 5025]"
    by (simp add: run_defs text_defs world_defs)
  from C6_one_write_then_one_read [of "ascii ''*OPC?''" ?w "ascii ''*OPC?'' @ [0x0A]"
      "ascii ''MEAS:VOLT?''" "ascii ''MEAS:VOLT?'' @ [0x0A]"] h c
  show ?thesis by simp
qed

text \<open>
  C6 as stated fails for the calls that fail early: on a never-connected channel \<open>query\<close>
  makes no call at all, and when the write raises it makes the write and no read.
\<close>

theorem C6_counterexample:
  "calls (snd (query (ascii ''*OPC?'') (new_world [] [] []))) = []
   \<and> calls (snd (query (ascii ''*OPC?'') (connected_world [Some OSError] []))) =
       [Settimeout 5, Connect (ascii ''127.0.0.1'') 5025, Sendall (ascii ''*OPC?'' @ [0x0A])]"
  by (simp add: query_def query_body_def run_defs text_defs world_defs)

subsection \<open>C7\<close>

text \<open>
  C7 (as amended). \<open>disconnect\<close> returns normally however often it is called and from
  whatever state, and after it the channel holds no open socket (for \<open>VISAConnection\<close>: no
  open instrument and no open resource manager). It does nothing at all when no socket
  object was ever created (\<open>self.socket\<close> is \<open>None\<close>; for \<open>VISAConnection\<close>, both fields
  are \<open>None\<close>). Whenever a socket object exists, connected or not, it closes it and prints
  the disconnect line.
\<close>

theorem C7_disconnect_never_fails_and_closes:
  "fst (disconnect (disconnect_times n w)) = Returned PyNone
   \<and> no_open_socket (disconnect_times (Suc n) w)
   \<and> (socket (self w) = None \<longrightarrow> disconnect w = (Returned PyNone, w))
   \<and> (socket (self w) = Some s \<longrightarrow>
        snd (disconnect w) =
          w\<lparr>self := (self w)\<lparr>socket := Some (s\<lparr>sock_closed := True\<rparr>)\<rparr>,
            calls := calls w @ [Close],
            console := console w @ [Print_Disconnected (ip (self w))]\<rparr>)
   \<and> fst (visa_disconnect (visa_disconnect_times n v)) = Returned PyNone
   \<and> visa_no_open_session (visa_disconnect_times (Suc n) v)
   \<and> (instrument (visa_self v) = None \<and> rm (visa_self v) = None \<longrightarrow>
        visa_disconnect v = (Returned PyNone, v))"
  by (simp add: disconnect_returns disconnect_closes disconnect_times_closed
      disconnect_no_socket disconnect_socket visa_disconnect_returns visa_disconnect_closes
      visa_disconnect_times_closed visa_disconnect_nothing)

theorem C7_witness:
  "socket (self (new_world [] [] [])) = None
   \<and> disconnect (new_world [] [] []) = (Returned PyNone, new_world [] [] [])
   \<and> no_open_socket (disconnect_times 3 (connected_world [] []))
   \<and> instrument (visa_self (new_visa_world [] [] [] [])) = None
   \<and> rm (visa_self (new_visa_world [] [] [] [])) = None
   \<and> visa_disconnect (new_visa_world [] [] [] []) = (Returned PyNone, new_visa_world [] [] [] [])
   \<and> visa_no_open_session (visa_disconnect_times 3 (connected_visa_world [] []))"
proof -
  have h: "socket (self (new_world [] [] [])) = None"
    "instrument (visa_self (new_visa_world [] [] [] [])) = None"
    "rm (visa_self (new_visa_world [] [] [] [])) = None"
    by (simp_all add: world_defs visa_world_defs)
  from C7_disconnect_never_fails_and_closes
         [of 0 "new_world [] [] []" fresh_sock "new_visa_world [] [] [] []"]
       C7_disconnect_never_fails_and_closes
         [of 2 "connected_world [] []" fresh_sock "connected_visa_world [] []"] h
  show ?thesis
    by (simp add: numeral_3_eq_3)
qed

text \<open>
  C7 as stated fails in its last part: after a \<open>connect\<close> that failed, \<open>self.socket\<close>
  holds the socket created before the failure, so \<open>disconnect\<close> is no no-op: it calls
  \<open>close\<close> and prints the disconnect line.
\<close>

theorem C7_counterexample:
  "fst (connect (new_world [Some OSError] [] [])) = Returned (PyBool False)
   \<and> calls (snd (connect (new_world [Some OSError] [] []))) =
       [Settimeout 5, Connect (ascii ''127.0.0.1'') 5025]
   \<and> console (snd (connect (new_world [Some OSError] [] []))) =
       [Print_Connection_error OSError]
   \<and> calls (snd (disconnect (snd (connect (new_world [Some OSError] [] []))))) =
       [Settimeout 5, Connect (ascii ''127.0.0.1'') 5025, Close]
   \<and> console (snd (disconnect (snd (connect (new_world [Some OSError] [] []))))) =
       [Print_Connection_error OSError, Print_Disconnected (ascii ''127.0.0.1'')]"
  by (simp add: disconnect_def run_defs text_defs world_defs)

subsection \<open>C8\<close>




subsection \<open>C9\<close>




subsection \<open>C10\<close>

text \<open>
  C10 (as amended). Whatever the command and whatever the transport does, as long as
  the exceptions it raises derive from \<open>Exception\<close> (as those of the socket module and
  of pyvisa do), no exception leaves \<open>send_command\<close> or \<open>query\<close>: \<open>send_command\<close>
  returns \<open>None\<close>, and \<open>query\<close> returns \<open>None\<close> or the decoded, stripped response. This
  holds for \<open>SocketConnection\<close> and for \<open>VISAConnection\<close>.
\<close>

theorem C10_Exceptions_never_propagate:
  "(raises_only_Exceptions w \<longrightarrow>
      fst (send_command command w) = Returned PyNone
    \<and> (fst (query command w) = Returned PyNone
       \<or> (\<exists>received text. decode received = Inr text
             \<and> fst (query command w) = Returned (PyStr (strip text)))))
   \<and> (visa_raises_only_Exceptions v \<longrightarrow>
      fst (visa_send_command command v) = Returned PyNone
    \<and> (fst (visa_query command v) = Returned PyNone
       \<or> (\<exists>reply. fst (visa_query command v) = Returned (PyStr (strip reply)))))"
  by (simp add: send_command_returns_None query_returns_text_or_None
      visa_send_command_returns_None visa_query_returns_text_or_None)

theorem C10_witness:
  "raises_only_Exceptions (connected_world [Some OSError] [RecvRaises TimeoutError])
   \<and> fst (send_command (ascii ''OUTP 1'') (connected_world [Some OSError] [RecvRaises TimeoutError]))
       = Returned PyNone
   \<and> fst (query (ascii ''*OPC?'') (connected_world [None] [RecvRaises TimeoutError]))
       = Returned PyNone
   \<and> visa_raises_only_Exceptions (connected_visa_world [Some VisaIOError] [QueryRaises VisaIOError])
   \<and> fst (visa_send_command (ascii ''OUTP 1'')
            (connected_visa_world [Some VisaIOError] [QueryRaises VisaIOError])) = Returned PyNone"
proof -
  have h: "raises_only_Exceptions (connected_world [Some OSError] [RecvRaises TimeoutError])"
    "visa_raises_only_Exceptions (connected_visa_world [Some VisaIOError] [QueryRaises VisaIOError])"
    by (simp_all add: raises_only_Exceptions_def visa_raises_only_Exceptions_def
        run_defs visa_defs text_defs world_defs visa_world_defs)
  have q: "fst (query (ascii ''*OPC?'') (connected_world [None] [RecvRaises TimeoutError]))
       = Returned PyNone"
    by (simp add: query_def query_body_def run_defs text_defs world_defs)
  from C10_Exceptions_never_propagate
         [of "connected_world [Some OSError] [RecvRaises TimeoutError]" "ascii ''OUTP 1''"
             "connected_visa_world [Some VisaIOError] [QueryRaises VisaIOError]"] h q
  show ?thesis by simp
qed

text \<open>
  C10 as stated fails: \<^verbatim>\<open>except Exception\<close> lets through what does not derive from
  \<open>Exception\<close>. A \<open>KeyboardInterrupt\<close> that arrives while \<open>sendall\<close> or \<open>recv\<close> blocks
  leaves \<open>send_command\<close> and \<open>query\<close> as an exception.
\<close>

theorem C10_counterexample:
  "fst (send_command (ascii ''OUTP 1'') (connected_world [Some KeyboardInterrupt] [])) =
     Propagated KeyboardInterrupt
   \<and> fst (query (ascii ''*OPC?'') (connected_world [] [RecvRaises KeyboardInterrupt])) =
     Propagated KeyboardInterrupt"
  by (simp add: send_command_def send_command_body_def query_def query_body_def
      run_defs text_defs world_defs)

end
